theory Spec2Isabelle
  imports
    Complex_Main
    "HOL-Library.Product_Lexorder"
    "HOL-Library.List_Lexorder"
    "HOL-Library.Char_ord"
    "HOL-Library.Sublist"
    "HOL-Library.Multiset"
begin

section \<open>Discovery of domain controllers: the model of \<open>discovery_utils.py\<close>\<close>

text \<open>
  The module resolves SRV records in DNS, probes every resolved server and orders the
  servers by round trip time. Everything the module takes from outside (the DNS answer,
  what a connection attempt does, the clock readings, the record name templates of
  \<open>discovery_constants\<close>, the URI formatter of \<open>format_utils\<close>) is a parameter of the
  model. Python exceptions are values of \<open>py_error\<close>, and a function that may raise
  returns \<open>py_error + 'a\<close>.
\<close>

subsection \<open>Exceptions\<close>

datatype py_error =
    TypeError              \<comment> \<open>subscripting \<open>None\<close>\<close>
  | NameError              \<comment> \<open>reading a closure variable that was never bound\<close>
  | NonExceptionRaised     \<comment> \<open>a \<open>BaseException\<close> that is no \<open>Exception\<close> (KeyboardInterrupt, SystemExit)\<close>
  | NoResolverConfiguration  \<comment> \<open>the \<open>DNSException\<close> of \<open>dns.resolver.Resolver()\<close>\<close>
  | LDAPException          \<comment> \<open>raised by the \<open>Server\<close> or \<open>Connection\<close> constructor of ldap3\<close>
  | OSError                \<comment> \<open>raised by \<open>socket.socket\<close>\<close>

subsection \<open>The resolver, \<open>_resolve_record_in_dns\<close>\<close>

text \<open>
  One SRV record of the answer. \<open>target\<close> is the text that
  \<open>record.target.to_text(omit_final_dot=True)\<close> yields.
\<close>

record srv_rdata =
  target :: string
  port :: int
  priority :: int
  weight :: int

text \<open>
  What the DNS library does for a record name. The resolver object is built first, by
  \<open>dns.resolver.Resolver()\<close>, before the \<open>try\<close>: on a machine with no resolver
  configuration that call raises \<open>NoResolverConfiguration\<close> (\<open>Resolver_raises\<close>) and no
  query is made. Otherwise \<open>temp_resolver.resolve(record_name, record_type, tcp=True)\<close>
  runs inside the \<open>try\<close>: it returns the records, raises a \<open>DNSException\<close>, raises
  another \<open>Exception\<close>, or raises something that is not an \<open>Exception\<close> at all.
\<close>

datatype dns_reply =
    Resolver_raises
  | Answer "srv_rdata list"
  | Raises_DNSException
  | Raises_Exception
  | Raises_non_Exception

text \<open>The tuples \<open>(host, port, priority, weight)\<close>.\<close>

type_synonym server_tuple = "string \<times> int \<times> int \<times> int"

definition record_tuple :: "srv_rdata \<Rightarrow> server_tuple" where
  "record_tuple r = (target r, port r, priority r, weight r)"

text \<open>The sort key \<open>lambda record_tuple: (record_tuple[2], -1*record_tuple[3])\<close>.\<close>

fun priority_weight_key :: "server_tuple \<Rightarrow> int \<times> int" where
  "priority_weight_key (h, p, pr, w) = (pr, -1 * w)"

text \<open>
  Python's \<open>sorted\<close> with a key is a stable sort; \<open>sort_key\<close> is the stable insertion
  sort, and a stable sort by a key has one result only.
\<close>

definition resolve_record_in_dns ::
  "(string \<Rightarrow> dns_reply) \<Rightarrow> string \<Rightarrow> py_error + server_tuple list" where
  "resolve_record_in_dns dns record_name =
     (case dns record_name of
        Resolver_raises \<Rightarrow> Inl NoResolverConfiguration
      | Raises_DNSException \<Rightarrow> Inr []
      | Raises_Exception \<Rightarrow> Inr []
      | Raises_non_Exception \<Rightarrow> Inl NonExceptionRaised
      | Answer resolved_records \<Rightarrow>
          Inr (sort_key priority_weight_key (map record_tuple resolved_records)))"

subsection \<open>What a probe returns\<close>

text \<open>
  A lookup function returns \<open>None\<close> or a tuple \<open>(round trip time, URI)\<close>. The filter of the
  ranking tests the first component of the tuple against \<open>None\<close>, so the first component
  is optional in the model. Round trip times are differences of \<open>time.time()\<close> readings;
  only their order matters here, and they are modelled as reals.
\<close>

datatype probe_result =
    PyNone
  | PyTuple "real option" string

subsection \<open>Text of an integer, as \<open>str.format\<close> writes it\<close>

fun str_nat :: "nat \<Rightarrow> string" where
  "str_nat n =
     (if n < 10 then [char_of (48 + n)]
      else str_nat (n div 10) @ [char_of (48 + n mod 10)])"

declare str_nat.simps [simp del]

definition str_int :: "int \<Rightarrow> string" where
  "str_int i = (if i < 0 then CHR ''-'' # str_nat (nat (- i)) else str_nat (nat i))"

subsection \<open>The LDAP probe, \<open>_check_ldap_server_availability_and_rtt\<close>\<close>

text \<open>
  What happens for a URI when the probe runs. \<open>Server(ldap_uri, get_info=DSA)\<close> and
  \<open>Connection(server)\<close> are called before the \<open>try\<close>: they return, or one of them raises
  (for a URI that ldap3 rejects) and the probe raises with it. Inside the \<open>try\<close>,
  \<open>conn.open()\<close> returns or raises,
  \<open>conn.start_tls()\<close> returns a truth value or raises, and the clock is read before the
  open (\<open>time_start\<close>) and after the last step: \<open>time_opened\<close> when no TLS is started,
  \<open>time_secured\<close> after \<open>start_tls\<close>.
\<close>

datatype construct_outcome = Constructed | Construct_raises

datatype open_outcome = Opened | Open_raises

datatype start_tls_outcome = Tls_returns bool | Tls_raises

record ldap_session =
  server_connection :: construct_outcome
  conn_open :: open_outcome
  start_tls :: start_tls_outcome
  time_start :: real
  time_opened :: real
  time_secured :: real

definition check_ldap_server_availability_and_rtt ::
  "(string \<Rightarrow> ldap_session) \<Rightarrow> string \<Rightarrow> int \<Rightarrow> bool \<Rightarrow> py_error + probe_result" where
  "check_ldap_server_availability_and_rtt net server_host server_port secure =
     (let ldap_uri = ''ldap://'' @ server_host @ '':'' @ str_int server_port;
          conn = net ldap_uri
      in case server_connection conn of
           Construct_raises \<Rightarrow> Inl LDAPException
         | Constructed \<Rightarrow>
             (let start = time_start conn
              in case conn_open conn of
                   Open_raises \<Rightarrow> Inr PyNone
                 | Opened \<Rightarrow>
                     (if secure then
                        (case start_tls conn of
                           Tls_raises \<Rightarrow> Inr PyNone
                         | Tls_returns ok \<Rightarrow>
                             (if \<not> ok then Inr PyNone
                              else Inr (PyTuple (Some (time_secured conn - start)) ldap_uri)))
                      else Inr (PyTuple (Some (time_opened conn - start)) ldap_uri))))"

subsection \<open>The KDC probe, \<open>_check_kdc_availability_and_rtt\<close>\<close>

datatype address_family = AF_INET6 | AF_INET

text \<open>
  \<open>socket.socket(family, socket.SOCK_STREAM)\<close> returns a socket or raises \<open>OSError\<close>, as
  it does for \<open>AF_INET6\<close> on a machine without IPv6.
\<close>

datatype create_outcome = Created | Create_raises

text \<open>
  One connection attempt: \<open>connect\<close> returns, raises \<open>socket.error\<close> or raises something
  else; the \<open>finally\<close> block (shutdown, then close) ends normally, raises \<open>socket.error\<close>,
  which it swallows itself, or raises something else, which the outer \<open>except\<close> swallows.
  The clock is read before and after \<open>connect\<close>.
\<close>

datatype connect_outcome = Connected | Connect_socket_error | Connect_other_error

datatype cleanup_outcome = Closed | Cleanup_socket_error | Cleanup_other_error

record kdc_attempt =
  connect :: connect_outcome
  cleanup :: cleanup_outcome
  connect_start :: real
  connect_end :: real

text \<open>
  The loop over \<open>candidates\<close>. A return inside the \<open>try\<close> is replaced by an exception of
  the \<open>finally\<close> block; the outer \<open>except\<close> drops that exception and the loop goes on.
\<close>

fun try_candidates ::
  "(address_family \<Rightarrow> string \<Rightarrow> int \<Rightarrow> kdc_attempt) \<Rightarrow> string
     \<Rightarrow> (address_family \<times> string \<times> int) list \<Rightarrow> probe_result" where
  "try_candidates net kdc_uri [] = PyNone"
| "try_candidates net kdc_uri ((family, host, prt) # candidates) =
     (let attempt = net family host prt
      in case connect attempt of
           Connected \<Rightarrow>
             (case cleanup attempt of
                Cleanup_other_error \<Rightarrow> try_candidates net kdc_uri candidates
              | _ \<Rightarrow> PyTuple (Some (connect_end attempt - connect_start attempt)) kdc_uri)
         | _ \<Rightarrow> try_candidates net kdc_uri candidates)"

text \<open>
  \<open>format_uri\<close> stands for \<open>format_utils.format_hostname_or_ip_and_port_to_uri\<close>, called
  with \<open>is_ipv6_fmt=False\<close>. Both sockets are created before the loop and outside every
  \<open>try\<close>, the IPv4 one first: when \<open>socket_socket\<close> raises, the probe raises and no
  connection is attempted.
\<close>

definition check_kdc_availability_and_rtt ::
  "(string \<Rightarrow> int \<Rightarrow> bool \<Rightarrow> string) \<Rightarrow> (address_family \<Rightarrow> create_outcome)
     \<Rightarrow> (address_family \<Rightarrow> string \<Rightarrow> int \<Rightarrow> kdc_attempt)
     \<Rightarrow> string \<Rightarrow> int \<Rightarrow> py_error + probe_result" where
  "check_kdc_availability_and_rtt format_uri socket_socket net server_host server_port =
     (let kdc_uri = format_uri server_host server_port False
      in case socket_socket AF_INET of
           Create_raises \<Rightarrow> Inl OSError
         | Created \<Rightarrow>
             (case socket_socket AF_INET6 of
                Create_raises \<Rightarrow> Inl OSError
              | Created \<Rightarrow>
                  Inr (try_candidates net kdc_uri
                         [(AF_INET6, server_host, server_port),
                          (AF_INET, server_host, server_port)])))"

subsection \<open>The lookup functions built by \<open>_order_ldap_servers_by_rtt\<close> and \<open>_order_kdcs_by_rtt\<close>\<close>

text \<open>
  The loop binds \<open>server_host\<close> and \<open>server_port\<close> anew for every record and appends a
  \<open>lambda\<close> whose body reads these two variables. A Python closure holds the variables of
  the enclosing function, not their values: the body reads them when the lambda is
  called. So the local variables are a \<open>frame\<close>, a lookup function is a function of the
  frame, and it is applied to the frame as it is when the tasks run, which is after the
  loop.
\<close>

record frame =
  server_host :: "string option"
  server_port :: "int option"

definition unbound :: frame where
  "unbound = \<lparr>server_host = None, server_port = None\<rparr>"

datatype probe_call =
    Check_ldap string int bool
  | Check_kdc string int

type_synonym lookup_fn = "frame \<Rightarrow> py_error + probe_call"

text \<open>\<open>lambda: _check_ldap_server_availability_and_rtt(server_host, server_port, secure)\<close>\<close>

definition ldap_lambda :: "bool \<Rightarrow> lookup_fn" where
  "ldap_lambda secure fr =
     (case server_host fr of
        None \<Rightarrow> Inl NameError
      | Some h \<Rightarrow>
          (case server_port fr of
             None \<Rightarrow> Inl NameError
           | Some p \<Rightarrow> Inr (Check_ldap h p secure)))"

text \<open>\<open>lambda: _check_kdc_availability_and_rtt(server_host, server_port)\<close>\<close>

definition kdc_lambda :: lookup_fn where
  "kdc_lambda fr =
     (case server_host fr of
        None \<Rightarrow> Inl NameError
      | Some h \<Rightarrow>
          (case server_port fr of
             None \<Rightarrow> Inl NameError
           | Some p \<Rightarrow> Inr (Check_kdc h p)))"

text \<open>The \<open>for\<close> loop of both functions, over the frame and the list \<open>lookup_rtt_fns\<close>.\<close>

fun build_lookup_fns ::
  "lookup_fn \<Rightarrow> server_tuple list \<Rightarrow> frame \<times> lookup_fn list \<Rightarrow> frame \<times> lookup_fn list" where
  "build_lookup_fns fn [] st = st"
| "build_lookup_fns fn ((h, p, pr, w) # server_records) (fr, lookup_rtt_fns) =
     build_lookup_fns fn server_records
       (fr\<lparr>server_host := Some h, server_port := Some p\<rparr>, lookup_rtt_fns @ [fn])"

subsection \<open>The ranking, \<open>_process_sort_return_rtt_ordering_results\<close>\<close>

text \<open>
  The tasks are submitted in order and their results collected in order; a task that
  raises, in the lambda or in the probe it calls, makes \<open>task.result()\<close> raise, and the
  first such task in the order of the list decides the exception. \<open>run\<close> executes a probe
  call against the network.
\<close>

fun run_tasks ::
  "(probe_call \<Rightarrow> py_error + probe_result) \<Rightarrow> frame \<Rightarrow> lookup_fn list
     \<Rightarrow> py_error + probe_result list" where
  "run_tasks run fr [] = Inr []"
| "run_tasks run fr (lookup_fn # fns) =
     (case lookup_fn fr of
        Inl e \<Rightarrow> Inl e
      | Inr call \<Rightarrow>
          (case run call of
             Inl e \<Rightarrow> Inl e
           | Inr rtt_result \<Rightarrow>
               (case run_tasks run fr fns of
                  Inl e \<Rightarrow> Inl e
                | Inr rtt_results \<Rightarrow> Inr (rtt_result # rtt_results))))"

text \<open>
  \<open>[result_tuple for result_tuple in rtt_results if result_tuple[0] is not None]\<close>:
  subscripting \<open>None\<close> raises \<open>TypeError\<close>; a tuple is kept when its first component is not
  \<open>None\<close>.
\<close>

fun drop_none :: "probe_result list \<Rightarrow> py_error + (real \<times> string) list" where
  "drop_none [] = Inr []"
| "drop_none (PyNone # rtt_results) = Inl TypeError"
| "drop_none (PyTuple None uri # rtt_results) = drop_none rtt_results"
| "drop_none (PyTuple (Some rtt) uri # rtt_results) =
     (case drop_none rtt_results of
        Inl e \<Rightarrow> Inl e
      | Inr rtt_uri_tuples \<Rightarrow> Inr ((rtt, uri) # rtt_uri_tuples))"

text \<open>
  \<open>sorted(rtt_uri_tuples)\<close> compares the tuples lexicographically, the round trip time
  first and the URI text second; that is the order of pairs here.
\<close>

definition rtt_uri_tuples :: "probe_result list \<Rightarrow> py_error + (real \<times> string) list" where
  "rtt_uri_tuples rtt_results =
     (case drop_none rtt_results of
        Inl e \<Rightarrow> Inl e
      | Inr tuples \<Rightarrow> Inr (sort tuples))"

text \<open>\<open>result_list = [uri for _, uri in rtt_uri_tuples]\<close>\<close>

definition result_list :: "probe_result list \<Rightarrow> py_error + string list" where
  "result_list rtt_results =
     (case rtt_uri_tuples rtt_results of
        Inl e \<Rightarrow> Inl e
      | Inr tuples \<Rightarrow> Inr (map snd tuples))"

text \<open>The slice \<open>xs[:n]\<close> of Python: a negative \<open>n\<close> counts from the end.\<close>

definition py_slice_to :: "'a list \<Rightarrow> int \<Rightarrow> 'a list" where
  "py_slice_to xs n =
     (if n < 0 then take (nat (int (length xs) + n)) xs else take (nat n) xs)"

text \<open>
  The limit: \<open>None\<close> and \<open>0\<close> are false as conditions, every other integer is true.
\<close>

definition short_list :: "'a list \<Rightarrow> int option \<Rightarrow> 'a list" where
  "short_list full maximum_result_list_length =
     (case maximum_result_list_length of
        None \<Rightarrow> full
      | Some m \<Rightarrow>
          (if m \<noteq> 0 \<and> int (length full) > m then py_slice_to full m else full))"

text \<open>The function returns \<open>short_list\<close> and nothing else.\<close>

definition process_sort_return_rtt_ordering_results ::
  "(probe_call \<Rightarrow> py_error + probe_result) \<Rightarrow> frame \<Rightarrow> lookup_fn list \<Rightarrow> int option
     \<Rightarrow> py_error + string list" where
  "process_sort_return_rtt_ordering_results run fr lookup_rtt_fns maximum_result_list_length =
     (case run_tasks run fr lookup_rtt_fns of
        Inl e \<Rightarrow> Inl e
      | Inr rtt_results \<Rightarrow>
          (case result_list rtt_results of
             Inl e \<Rightarrow> Inl e
           | Inr full \<Rightarrow> Inr (short_list full maximum_result_list_length)))"

text \<open>
  The network: what every LDAP URI and every KDC address does, whether this machine can
  create a socket of an address family, and the URI formatter.
\<close>

record network =
  ldap_net :: "string \<Rightarrow> ldap_session"
  kdc_net :: "address_family \<Rightarrow> string \<Rightarrow> int \<Rightarrow> kdc_attempt"
  socket_socket :: "address_family \<Rightarrow> create_outcome"
  format_uri :: "string \<Rightarrow> int \<Rightarrow> bool \<Rightarrow> string"

fun run_probe :: "network \<Rightarrow> probe_call \<Rightarrow> py_error + probe_result" where
  "run_probe nw (Check_ldap h p secure) =
     check_ldap_server_availability_and_rtt (ldap_net nw) h p secure"
| "run_probe nw (Check_kdc h p) =
     check_kdc_availability_and_rtt (format_uri nw) (socket_socket nw) (kdc_net nw) h p"

definition order_ldap_servers_by_rtt ::
  "network \<Rightarrow> server_tuple list \<Rightarrow> int option \<Rightarrow> bool \<Rightarrow> py_error + string list" where
  "order_ldap_servers_by_rtt nw ldap_server_records server_limit secure =
     (case build_lookup_fns (ldap_lambda secure) ldap_server_records (unbound, []) of
        (fr, lookup_rtt_fns) \<Rightarrow>
          process_sort_return_rtt_ordering_results (run_probe nw) fr lookup_rtt_fns server_limit)"

definition order_kdcs_by_rtt ::
  "network \<Rightarrow> server_tuple list \<Rightarrow> int option \<Rightarrow> py_error + string list" where
  "order_kdcs_by_rtt nw kdc_server_records server_limit =
     (case build_lookup_fns kdc_lambda kdc_server_records (unbound, []) of
        (fr, lookup_rtt_fns) \<Rightarrow>
          process_sort_return_rtt_ordering_results (run_probe nw) fr lookup_rtt_fns server_limit)"

subsection \<open>The public functions\<close>

text \<open>
  The four templates of \<open>discovery_constants\<close>, each as the function its \<open>format\<close> call
  computes: the site-aware ones take the site and the domain.
\<close>

record srv_formats =
  LDAP_DNS_SRV_FORMAT :: "string \<Rightarrow> string"
  LDAP_SITE_AWARE_DNS_SRV_FORMAT :: "string \<Rightarrow> string \<Rightarrow> string"
  KERBEROS_DNS_SRV_FORMAT :: "string \<Rightarrow> string"
  KERBEROS_SITE_AWARE_DNS_SRV_FORMAT :: "string \<Rightarrow> string \<Rightarrow> string"

text \<open>\<open>if site:\<close> holds for a site that is neither \<open>None\<close> nor the empty string.\<close>

definition srv_name ::
  "(string \<Rightarrow> string) \<Rightarrow> (string \<Rightarrow> string \<Rightarrow> string) \<Rightarrow> string \<Rightarrow> string option \<Rightarrow> string" where
  "srv_name fmt site_fmt domain site =
     (case site of
        None \<Rightarrow> fmt domain
      | Some s \<Rightarrow> (if s \<noteq> [] then site_fmt s domain else fmt domain))"

definition discover_ldap_domain_controllers_in_domain ::
  "srv_formats \<Rightarrow> (string \<Rightarrow> dns_reply) \<Rightarrow> network \<Rightarrow> string \<Rightarrow> string option \<Rightarrow> int option
     \<Rightarrow> bool \<Rightarrow> py_error + string list" where
  "discover_ldap_domain_controllers_in_domain fmts dns nw domain site server_limit secure =
     (let ldap_srv =
            srv_name (LDAP_DNS_SRV_FORMAT fmts) (LDAP_SITE_AWARE_DNS_SRV_FORMAT fmts) domain site
      in case resolve_record_in_dns dns ldap_srv of
           Inl e \<Rightarrow> Inl e
         | Inr all_ldap_records \<Rightarrow>
             order_ldap_servers_by_rtt nw all_ldap_records server_limit secure)"

definition discover_kdc_domain_controllers_in_domain ::
  "srv_formats \<Rightarrow> (string \<Rightarrow> dns_reply) \<Rightarrow> network \<Rightarrow> string \<Rightarrow> string option \<Rightarrow> int option
     \<Rightarrow> py_error + string list" where
  "discover_kdc_domain_controllers_in_domain fmts dns nw domain site server_limit =
     (let krb_srv =
            srv_name (KERBEROS_DNS_SRV_FORMAT fmts) (KERBEROS_SITE_AWARE_DNS_SRV_FORMAT fmts)
              domain site
      in case resolve_record_in_dns dns krb_srv of
           Inl e \<Rightarrow> Inl e
         | Inr all_ldap_records \<Rightarrow> order_kdcs_by_rtt nw all_ldap_records server_limit)"

subsection \<open>Notions used to state the properties\<close>

text \<open>The tuples among the results whose round trip time is a number, in order.\<close>

fun measured :: "probe_result list \<Rightarrow> (real \<times> string) list" where
  "measured [] = []"
| "measured (PyNone # rs) = measured rs"
| "measured (PyTuple None uri # rs) = measured rs"
| "measured (PyTuple (Some rtt) uri # rs) = (rtt, uri) # measured rs"

fun as_tuple :: "probe_result \<Rightarrow> (real \<times> string) option" where
  "as_tuple (PyTuple (Some rtt) uri) = Some (rtt, uri)"
| "as_tuple r = None"

text \<open>
  The calls that the tasks make: every lookup function of the list, applied to the frame
  the loop has left behind.
\<close>

definition dispatched_calls ::
  "lookup_fn \<Rightarrow> server_tuple list \<Rightarrow> (py_error + probe_call) list" where
  "dispatched_calls fn server_records =
     (case build_lookup_fns fn server_records (unbound, []) of
        (fr, lookup_rtt_fns) \<Rightarrow> map (\<lambda>lookup_fn. lookup_fn fr) lookup_rtt_fns)"

subsection \<open>Sample environments\<close>

text \<open>
  Record name templates of the usual form, a DNS that answers with two servers, a DNS
  whose query raises, and networks in which servers answer or do not.
\<close>

definition example_formats :: srv_formats where
  "example_formats =
     \<lparr>LDAP_DNS_SRV_FORMAT = (\<lambda>domain. ''_ldap._tcp.dc._msdcs.'' @ domain),
      LDAP_SITE_AWARE_DNS_SRV_FORMAT =
        (\<lambda>site domain. ''_ldap._tcp.'' @ site @ ''._sites.dc._msdcs.'' @ domain),
      KERBEROS_DNS_SRV_FORMAT = (\<lambda>domain. ''_kerberos._tcp.dc._msdcs.'' @ domain),
      KERBEROS_SITE_AWARE_DNS_SRV_FORMAT =
        (\<lambda>site domain. ''_kerberos._tcp.'' @ site @ ''._sites.dc._msdcs.'' @ domain)\<rparr>"

definition two_records :: "string \<Rightarrow> dns_reply" where
  "two_records name =
     Answer [\<lparr>target = ''dc1'', port = 389, priority = 0, weight = 100\<rparr>,
             \<lparr>target = ''dc2'', port = 636, priority = 0, weight = 100\<rparr>]"

definition reachable :: "real \<Rightarrow> ldap_session" where
  "reachable t = \<lparr>server_connection = Constructed, conn_open = Opened, start_tls = Tls_returns True, time_start = 0,
                  time_opened = t, time_secured = 2 * t\<rparr>"

definition down :: ldap_session where
  "down = \<lparr>server_connection = Constructed, conn_open = Open_raises, start_tls = Tls_raises, time_start = 0,
           time_opened = 0, time_secured = 0\<rparr>"

definition refused :: kdc_attempt where
  "refused = \<lparr>connect = Connect_socket_error, cleanup = Cleanup_socket_error,
              connect_start = 0, connect_end = 0\<rparr>"

definition accepted :: "real \<Rightarrow> kdc_attempt" where
  "accepted t = \<lparr>connect = Connected, cleanup = Closed, connect_start = 0, connect_end = t\<rparr>"

definition host_port :: "string \<Rightarrow> int \<Rightarrow> bool \<Rightarrow> string" where
  "host_port h p v6 = h @ '':'' @ str_int p"

definition both_up :: network where
  "both_up =
     \<lparr>ldap_net = (\<lambda>uri. if uri = ''ldap://dc1:389'' then reachable 1 else reachable 5),
      kdc_net = (\<lambda>family h p. if family = AF_INET6 then refused else accepted 3),
      socket_socket = (\<lambda>family. Created),
      format_uri = host_port\<rparr>"

definition all_down :: network where
  "all_down =
     \<lparr>ldap_net = (\<lambda>uri. down), kdc_net = (\<lambda>family h p. refused),
      socket_socket = (\<lambda>family. Created), format_uri = host_port\<rparr>"

definition dns_fails :: "string \<Rightarrow> dns_reply" where
  "dns_fails name = Raises_DNSException"

definition four_records :: "string \<Rightarrow> dns_reply" where
  "four_records name = Answer
     [\<lparr>target = ''dc1'', port = 389, priority = 10, weight = 5\<rparr>,
      \<lparr>target = ''dc2'', port = 389, priority = 0, weight = 5\<rparr>,
      \<lparr>target = ''dc3'', port = 389, priority = 0, weight = 50\<rparr>,
      \<lparr>target = ''dc4'', port = 389, priority = 0, weight = 5\<rparr>]"

definition tls_refused :: "string \<Rightarrow> ldap_session" where
  "tls_refused uri = \<lparr>server_connection = Constructed, conn_open = Opened,
                      start_tls = Tls_returns False, time_start = 0,
                      time_opened = 1, time_secured = 2\<rparr>"


text \<open>A machine with no resolver configuration.\<close>

definition no_resolver_configuration :: "string \<Rightarrow> dns_reply" where
  "no_resolver_configuration name = Resolver_raises"

text \<open>A network whose LDAP servers all open the connection and refuse TLS.\<close>

definition tls_refusing :: network where
  "tls_refusing =
     \<lparr>ldap_net = tls_refused, kdc_net = (\<lambda>family h p. refused),
      socket_socket = (\<lambda>family. Created), format_uri = host_port\<rparr>"




text \<open>
  Three lookup functions with their own targets, in two orders, and a network in which
  the KDC \<open>z\<close> answers after 1 time unit and every other KDC after 2.
\<close>

definition three_lookups :: "lookup_fn list" where
  "three_lookups =
     [\<lambda>fr. Inr (Check_kdc ''b'' 88), \<lambda>fr. Inr (Check_kdc ''z'' 88),
      \<lambda>fr. Inr (Check_kdc ''a'' 88)]"

definition three_lookups_reordered :: "lookup_fn list" where
  "three_lookups_reordered =
     [\<lambda>fr. Inr (Check_kdc ''a'' 88), \<lambda>fr. Inr (Check_kdc ''b'' 88),
      \<lambda>fr. Inr (Check_kdc ''z'' 88)]"

definition z_fastest :: network where
  "z_fastest =
     \<lparr>ldap_net = (\<lambda>uri. down),
      kdc_net = (\<lambda>family h p. if h = ''z'' then accepted 1 else accepted 2),
      socket_socket = (\<lambda>family. Created),
      format_uri = (\<lambda>h p v6. h)\<rparr>"

section \<open>Properties\<close>

subsection \<open>The resolver\<close>

lemma key_le_iff:
  "priority_weight_key a \<le> priority_weight_key b \<longleftrightarrow>
     fst (snd (snd a)) < fst (snd (snd b)) \<or>
     (fst (snd (snd a)) = fst (snd (snd b)) \<and> snd (snd (snd b)) \<le> snd (snd (snd a)))"
  by (cases a; cases b) auto

lemma key_eq_iff:
  "priority_weight_key a = (pr, - w) \<longleftrightarrow> fst (snd (snd a)) = pr \<and> snd (snd (snd a)) = w"
  by (cases a) auto

text \<open>
  C6. When the DNS query returns records, the resolver returns the tuples
  \<open>(host, port, priority, weight)\<close> of these records, each as many times as it is in the
  answer, ordered by priority (third component) ascending and, at equal priority, by
  weight (fourth component) descending; the tuples of one priority and one weight stand
  in the order of the answer.
\<close>

theorem resolver_sorted_stable:
  assumes "dns record_name = Answer resolved_records"
  shows "\<exists>out. resolve_record_in_dns dns record_name = Inr out
           \<and> mset out =
               mset (map (\<lambda>r. (target r, port r, priority r, weight r)) resolved_records)
           \<and> (\<forall>i j. i < j \<and> j < length out \<longrightarrow>
                 fst (snd (snd (out ! i))) < fst (snd (snd (out ! j))) \<or>
                 (fst (snd (snd (out ! i))) = fst (snd (snd (out ! j))) \<and>
                  snd (snd (snd (out ! j))) \<le> snd (snd (snd (out ! i)))))
           \<and> (\<forall>pr w.
                 filter (\<lambda>t. fst (snd (snd t)) = pr \<and> snd (snd (snd t)) = w) out =
                 filter (\<lambda>t. fst (snd (snd t)) = pr \<and> snd (snd (snd t)) = w)
                   (map (\<lambda>r. (target r, port r, priority r, weight r)) resolved_records))"
proof -
  let ?ts = "map (\<lambda>r. (target r, port r, priority r, weight r)) resolved_records"
  let ?out = "sort_key priority_weight_key ?ts"
  have ts: "map record_tuple resolved_records = ?ts"
    by (simp add: record_tuple_def)
  have res: "resolve_record_in_dns dns record_name = Inr ?out"
    using assms by (simp add: resolve_record_in_dns_def ts)
  have srt: "sorted (map priority_weight_key ?out)"
    by (rule sorted_sort_key)
  have ord: "fst (snd (snd (?out ! i))) < fst (snd (snd (?out ! j))) \<or>
       (fst (snd (snd (?out ! i))) = fst (snd (snd (?out ! j))) \<and>
        snd (snd (snd (?out ! j))) \<le> snd (snd (snd (?out ! i))))"
    if "i < j" "j < length ?out" for i j
  proof -
    have "map priority_weight_key ?out ! i \<le> map priority_weight_key ?out ! j"
      using srt that by (intro sorted_nth_mono) simp_all
    then have "priority_weight_key (?out ! i) \<le> priority_weight_key (?out ! j)"
      using that by simp
    then show ?thesis by (simp only: key_le_iff)
  qed
  have stab: "filter (\<lambda>t. fst (snd (snd t)) = pr \<and> snd (snd (snd t)) = w) ?out =
       filter (\<lambda>t. fst (snd (snd t)) = pr \<and> snd (snd (snd t)) = w) ?ts" for pr w
    using sort_key_stable [of priority_weight_key "(pr, - w)" ?ts]
    by (simp only: key_eq_iff)
  show ?thesis
    using res ord stab by (intro exI [of _ ?out]) (simp del: length_sort)
qed

text \<open>The theorem at an answer of four records, two of them with the same priority and weight.\<close>

theorem resolver_sorted_stable_witness:
  "four_records ''_ldap._tcp.dc._msdcs.example.com'' = Answer
     [\<lparr>target = ''dc1'', port = 389, priority = 10, weight = 5\<rparr>,
      \<lparr>target = ''dc2'', port = 389, priority = 0, weight = 5\<rparr>,
      \<lparr>target = ''dc3'', port = 389, priority = 0, weight = 50\<rparr>,
      \<lparr>target = ''dc4'', port = 389, priority = 0, weight = 5\<rparr>]
   \<and> resolve_record_in_dns four_records ''_ldap._tcp.dc._msdcs.example.com'' =
       Inr [(''dc3'', 389, 0, 50), (''dc2'', 389, 0, 5), (''dc4'', 389, 0, 5), (''dc1'', 389, 10, 5)]"
proof -
  have h: "four_records ''_ldap._tcp.dc._msdcs.example.com'' = Answer
     [\<lparr>target = ''dc1'', port = 389, priority = 10, weight = 5\<rparr>,
      \<lparr>target = ''dc2'', port = 389, priority = 0, weight = 5\<rparr>,
      \<lparr>target = ''dc3'', port = 389, priority = 0, weight = 50\<rparr>,
      \<lparr>target = ''dc4'', port = 389, priority = 0, weight = 5\<rparr>]"
    by (simp add: four_records_def)
  from resolver_sorted_stable
      [where dns = four_records and record_name = "''_ldap._tcp.dc._msdcs.example.com''", OF h] h
  show ?thesis
    by (simp add: resolve_record_in_dns_def record_tuple_def)
qed

text \<open>
  C7, as the code has it. Once the resolver object is built, a query that raises a
  \<open>DNSException\<close> or any other \<open>Exception\<close> makes the resolver return the empty list, and
  nothing is raised.
\<close>

theorem resolver_failure_gives_empty:
  assumes "dns record_name = Raises_DNSException \<or> dns record_name = Raises_Exception"
  shows "resolve_record_in_dns dns record_name = Inr []"
  using assms by (auto simp: resolve_record_in_dns_def)

text \<open>The theorem at a DNS whose query raises \<open>DNSException\<close>.\<close>

theorem resolver_failure_gives_empty_witness:
  "(dns_fails ''_ldap._tcp.dc._msdcs.example.com'' = Raises_DNSException
      \<or> dns_fails ''_ldap._tcp.dc._msdcs.example.com'' = Raises_Exception)
   \<and> resolve_record_in_dns dns_fails ''_ldap._tcp.dc._msdcs.example.com'' = Inr []"
proof -
  have h: "dns_fails ''_ldap._tcp.dc._msdcs.example.com'' = Raises_DNSException
      \<or> dns_fails ''_ldap._tcp.dc._msdcs.example.com'' = Raises_Exception"
    by (simp add: dns_fails_def)
  from resolver_failure_gives_empty
      [where dns = dns_fails and record_name = "''_ldap._tcp.dc._msdcs.example.com''", OF h] h
  show ?thesis by simp
qed

text \<open>
  C7 as stated fails: on a machine with no resolver configuration the constructor
  \<open>dns.resolver.Resolver()\<close>, which is called before the \<open>try\<close>, raises a \<open>DNSException\<close>
  that leaves the resolver and both public functions.
\<close>

theorem resolver_construction_raises_counterexample:
  "resolve_record_in_dns no_resolver_configuration ''_ldap._tcp.dc._msdcs.example.com''
     = Inl NoResolverConfiguration
   \<and> discover_ldap_domain_controllers_in_domain example_formats no_resolver_configuration
       both_up ''example.com'' None None True = Inl NoResolverConfiguration
   \<and> discover_kdc_domain_controllers_in_domain example_formats no_resolver_configuration
       both_up ''example.com'' None None = Inl NoResolverConfiguration"
  by (simp add: resolve_record_in_dns_def no_resolver_configuration_def
      discover_ldap_domain_controllers_in_domain_def
      discover_kdc_domain_controllers_in_domain_def)

subsection \<open>The probes\<close>

text \<open>
  With \<open>secure\<close> true, a server whose connection opens and whose \<open>start_tls\<close> returns
  false or raises makes the LDAP probe return \<open>None\<close>, the result of an unreachable
  server.
\<close>

lemma ldap_probe_tls_failure_returns_None:
  assumes "server_connection (net (''ldap://'' @ host @ '':'' @ str_int prt)) = Constructed"
    and "conn_open (net (''ldap://'' @ host @ '':'' @ str_int prt)) = Opened"
    and "start_tls (net (''ldap://'' @ host @ '':'' @ str_int prt)) = Tls_returns False
         \<or> start_tls (net (''ldap://'' @ host @ '':'' @ str_int prt)) = Tls_raises"
  shows "check_ldap_server_availability_and_rtt net host prt True = Inr PyNone"
  using assms by (auto simp: check_ldap_server_availability_and_rtt_def Let_def)




subsection \<open>The lookup functions\<close>

text \<open>
  After the loop the frame holds the host and port of the last record, and the list
  holds one lookup function per record, all of them the same function of the frame.
\<close>

lemma build_lookup_fns_eq:
  "build_lookup_fns fn server_records (fr, fns) =
     (if server_records = [] then fr
      else \<lparr>server_host = Some (fst (last server_records)),
            server_port = Some (fst (snd (last server_records)))\<rparr>,
      fns @ replicate (length server_records) fn)"
proof (induction server_records arbitrary: fr fns)
  case Nil
  then show ?case by simp
next
  case (Cons r rs)
  obtain h p pr w where r: "r = (h, p, pr, w)" by (cases r) auto
  show ?case
    by (simp add: r Cons.IH replicate_app_Cons_same)
qed

text \<open>So every call that the tasks make is a call for the last record.\<close>

lemma dispatched_ldap_calls:
  "server_records \<noteq> [] \<Longrightarrow>
   dispatched_calls (ldap_lambda secure) server_records =
     replicate (length server_records)
       (Inr (Check_ldap (fst (last server_records)) (fst (snd (last server_records))) secure))"
  by (simp add: dispatched_calls_def build_lookup_fns_eq unbound_def ldap_lambda_def)

lemma dispatched_kdc_calls:
  "server_records \<noteq> [] \<Longrightarrow>
   dispatched_calls kdc_lambda server_records =
     replicate (length server_records)
       (Inr (Check_kdc (fst (last server_records)) (fst (snd (last server_records)))))"
  by (simp add: dispatched_calls_def build_lookup_fns_eq unbound_def kdc_lambda_def)

text \<open>The results that the ranking collects are the results of exactly these calls.\<close>

lemma run_tasks_dispatched:
  "map (\<lambda>lookup_fn. lookup_fn fr) fns = map Inr calls \<Longrightarrow>
   map run calls = map Inr rtt_results \<Longrightarrow>
   run_tasks run fr fns = Inr rtt_results"
  by (induction fns arbitrary: calls rtt_results) auto

text \<open>
  C3. One probe is dispatched per record, but the probes do not target their own
  records: for the records \<open>dc1\<close> and \<open>dc2\<close>, both calls are calls for \<open>dc2\<close>, the last
  record, for LDAP and for KDC alike, and the ranked list holds the URI of \<open>dc2\<close> twice
  and never the one of \<open>dc1\<close>.
\<close>

theorem lookup_fns_read_last_record:
  "dispatched_calls (ldap_lambda True) [(''dc1'', 389, 0, 100), (''dc2'', 636, 0, 100)] =
     [Inr (Check_ldap ''dc2'' 636 True), Inr (Check_ldap ''dc2'' 636 True)]
   \<and> dispatched_calls kdc_lambda [(''dc1'', 88, 0, 100), (''dc2'', 464, 0, 100)] =
     [Inr (Check_kdc ''dc2'' 464), Inr (Check_kdc ''dc2'' 464)]
   \<and> order_ldap_servers_by_rtt both_up [(''dc1'', 389, 0, 100), (''dc2'', 636, 0, 100)] None False =
     Inr [''ldap://dc2:636'', ''ldap://dc2:636'']"
  by code_simp

subsection \<open>The ranking\<close>

lemma drop_none_eq:
  "drop_none rs = (if PyNone \<in> set rs then Inl TypeError else Inr (measured rs))"
  by (induction rs rule: drop_none.induct) auto

lemma measured_filter: "measured rs = map (the \<circ> as_tuple) (filter (\<lambda>r. as_tuple r \<noteq> None) rs)"
  by (induction rs rule: measured.induct) auto

lemma mset_measured:
  "mset (measured rs) = image_mset (the \<circ> as_tuple) (filter_mset (\<lambda>r. as_tuple r \<noteq> None) (mset rs))"
  by (simp add: measured_filter)

lemma measured_cong: "mset rs' = mset rs \<Longrightarrow> sort (measured rs') = sort (measured rs)"
proof -
  assume "mset rs' = mset rs"
  then have "mset (measured rs') = mset (measured rs)"
    by (simp only: mset_measured)
  then have "sorted_list_of_multiset (mset (measured rs')) = sorted_list_of_multiset (mset (measured rs))"
    by simp
  then show ?thesis by (simp only: sorted_list_of_multiset_mset)
qed

lemma rtt_uri_tuples_eq:
  "rtt_uri_tuples rs = (if PyNone \<in> set rs then Inl TypeError else Inr (sort (measured rs)))"
  by (simp add: rtt_uri_tuples_def drop_none_eq)

lemma rtt_uri_tuples_mset:
  assumes "mset rs' = mset rs"
  shows "rtt_uri_tuples rs' = rtt_uri_tuples rs"
proof -
  have "set rs' = set rs" using assms by (rule mset_eq_setD)
  then show ?thesis using measured_cong [OF assms] by (simp add: rtt_uri_tuples_eq)
qed

lemma set_measured: "(rtt, uri) \<in> set (measured rs) \<longleftrightarrow> PyTuple (Some rtt) uri \<in> set rs"
  by (induction rs rule: measured.induct) auto

text \<open>A result \<open>None\<close> anywhere in the batch makes the ranking raise \<open>TypeError\<close>.\<close>

lemma result_list_None:
  "PyNone \<in> set rs \<Longrightarrow> result_list rs = Inl TypeError"
  by (simp add: result_list_def rtt_uri_tuples_eq)

text \<open>
  C2. A batch in which a probe reports an unreachable server does not complete: the
  filter subscripts the \<open>None\<close> that the probe returned, and the ranking raises
  \<open>TypeError\<close>, for a batch of results as for the LDAP and KDC rankings of an unreachable
  server.
\<close>

theorem unreachable_probe_raises_TypeError:
  "result_list [PyTuple (Some 1) ''ldap://dc1:389'', PyNone] = Inl TypeError
   \<and> order_ldap_servers_by_rtt all_down [(''dc1'', 389, 0, 100)] None False = Inl TypeError
   \<and> order_kdcs_by_rtt all_down [(''dc1'', 88, 0, 100)] None = Inl TypeError"
  by code_simp

text \<open>
  C8. With \<open>secure\<close> true, the probe of a server that opens the connection and refuses
  TLS returns \<open>None\<close>, but the endpoint is not excluded from a ranked list: the ranking
  of that server subscripts the \<open>None\<close> and raises \<open>TypeError\<close>. Without \<open>secure\<close> the
  same server is ranked.
\<close>

theorem tls_failure_raises_in_ranking:
  "check_ldap_server_availability_and_rtt (ldap_net tls_refusing) ''dc1'' 389 True = Inr PyNone
   \<and> order_ldap_servers_by_rtt tls_refusing [(''dc1'', 389, 0, 100)] None True = Inl TypeError
   \<and> order_ldap_servers_by_rtt tls_refusing [(''dc1'', 389, 0, 100)] None False =
       Inr [''ldap://dc1:389'']"
  by code_simp

text \<open>The measured tuples of a batch, read back as results, are the results with a time.\<close>

lemma measured_results:
  "map (\<lambda>(rtt, uri). PyTuple (Some rtt) uri) (measured rs) =
   filter (\<lambda>r. \<exists>rtt uri. r = PyTuple (Some rtt) uri) rs"
  by (induction rs rule: measured.induct) auto

lemma process_eq:
  "process_sort_return_rtt_ordering_results run fr fns server_limit =
     (case run_tasks run fr fns of
        Inl e \<Rightarrow> Inl e
      | Inr rs \<Rightarrow>
          (if PyNone \<in> set rs then Inl TypeError
           else Inr (short_list (map snd (sort (measured rs))) server_limit)))"
  by (simp add: process_sort_return_rtt_ordering_results_def result_list_def rtt_uri_tuples_eq
      split: sum.splits)

text \<open>
  C10. When the ranking function returns a list, the list is read off tuples
  \<open>(round trip time, URI)\<close> that are exactly the collected results with a time, in an
  order in which the round trip times do not decrease and tuples of equal round trip
  time stand in ascending order of their URIs; the list is the URIs of these tuples in
  that order, cut by the limit. Any ranking pass that collects the same results, in
  whatever order, returns the same list.
\<close>

theorem ranking_order_deterministic:
  assumes "process_sort_return_rtt_ordering_results run fr fns server_limit = Inr out"
  shows "\<exists>rtt_results tuples.
           run_tasks run fr fns = Inr rtt_results
         \<and> mset (map (\<lambda>(rtt, uri). PyTuple (Some rtt) uri) tuples) =
             filter_mset (\<lambda>r. \<exists>rtt uri. r = PyTuple (Some rtt) uri) (mset rtt_results)
         \<and> (\<forall>i j. i < j \<and> j < length tuples \<longrightarrow>
               fst (tuples ! i) < fst (tuples ! j) \<or>
               (fst (tuples ! i) = fst (tuples ! j) \<and> snd (tuples ! i) \<le> snd (tuples ! j)))
         \<and> out = short_list (map snd tuples) server_limit
         \<and> (\<forall>run' fr' fns' rtt_results'.
               run_tasks run' fr' fns' = Inr rtt_results' \<and> mset rtt_results' = mset rtt_results
               \<longrightarrow> process_sort_return_rtt_ordering_results run' fr' fns' server_limit = Inr out)"
proof -
  from assms obtain rs where rs: "run_tasks run fr fns = Inr rs"
    and none: "PyNone \<notin> set rs"
    and out: "out = short_list (map snd (sort (measured rs))) server_limit"
    by (auto simp: process_eq split: sum.splits if_splits)
  let ?tuples = "sort (measured rs)"
  have "mset (map (\<lambda>(rtt, uri). PyTuple (Some rtt) uri) ?tuples) =
        mset (map (\<lambda>(rtt, uri). PyTuple (Some rtt) uri) (measured rs))"
    by simp
  then have perm: "mset (map (\<lambda>(rtt, uri). PyTuple (Some rtt) uri) ?tuples) =
        filter_mset (\<lambda>r. \<exists>rtt uri. r = PyTuple (Some rtt) uri) (mset rs)"
    by (simp only: measured_results mset_filter)
  have ord: "fst (?tuples ! i) < fst (?tuples ! j) \<or>
        (fst (?tuples ! i) = fst (?tuples ! j) \<and> snd (?tuples ! i) \<le> snd (?tuples ! j))"
    if "i < j \<and> j < length ?tuples" for i j
  proof -
    have "sorted ?tuples" by simp
    with that have "?tuples ! i \<le> ?tuples ! j" by (intro sorted_nth_mono) simp_all
    then show ?thesis by (cases "?tuples ! i"; cases "?tuples ! j") auto
  qed
  have det: "process_sort_return_rtt_ordering_results run' fr' fns' server_limit = Inr out"
    if "run_tasks run' fr' fns' = Inr rs' \<and> mset rs' = mset rs" for run' fr' fns' rs'
  proof -
    from that have m: "mset rs' = mset rs" by simp
    then have "set rs' = set rs" by (rule mset_eq_setD)
    with none have "PyNone \<notin> set rs'" by simp
    moreover have "sort (measured rs') = sort (measured rs)" using m by (rule measured_cong)
    ultimately show ?thesis using that out by (simp add: process_eq)
  qed
  show ?thesis
    using rs perm ord out det by (intro exI [of _ rs] exI [of _ ?tuples]) blast
qed

text \<open>
  The theorem at three lookups with different targets and the limit 2: the KDC \<open>z\<close>
  answers fastest, \<open>a\<close> and \<open>b\<close> take the same time, and the lookups in another order
  give the same list.
\<close>

theorem ranking_order_deterministic_witness:
  "process_sort_return_rtt_ordering_results (run_probe z_fastest) unbound three_lookups (Some 2)
     = Inr [''z'', ''a'']
   \<and> process_sort_return_rtt_ordering_results (run_probe z_fastest) unbound
       three_lookups_reordered (Some 2) = Inr [''z'', ''a'']"
proof -
  let ?rs = "[PyTuple (Some 2) ''b'', PyTuple (Some 1) ''z'', PyTuple (Some 2) ''a'']"
  let ?rs' = "[PyTuple (Some 2) ''a'', PyTuple (Some 2) ''b'', PyTuple (Some 1) ''z'']"
  have h: "process_sort_return_rtt_ordering_results (run_probe z_fastest) unbound three_lookups
      (Some 2) = Inr [''z'', ''a'']"
    by code_simp
  have r: "run_tasks (run_probe z_fastest) unbound three_lookups = Inr ?rs"
    by code_simp
  have r': "run_tasks (run_probe z_fastest) unbound three_lookups_reordered = Inr ?rs'"
    by code_simp
  have m: "mset ?rs' = mset ?rs" by (simp add: add_mset_commute)
  from ranking_order_deterministic [OF h] r
  have "\<forall>run' fr' fns' rtt_results'.
          run_tasks run' fr' fns' = Inr rtt_results' \<and> mset rtt_results' = mset ?rs
          \<longrightarrow> process_sort_return_rtt_ordering_results run' fr' fns' (Some 2) = Inr [''z'', ''a'']"
    by auto
  with r' m have "process_sort_return_rtt_ordering_results (run_probe z_fastest) unbound
       three_lookups_reordered (Some 2) = Inr [''z'', ''a'']"
    by blast
  with h show ?thesis by simp
qed

text \<open>
  C4, as the code has it. A positive limit below the length of the full list cuts the
  list to its first \<open>limit\<close> elements; with no limit, limit zero or a limit of at least
  the length the short list is the full list; and in all cases, a negative limit
  included, the short list is a prefix of the full list.
\<close>

theorem short_list_by_limit:
  "(0 < m \<and> m < int (length full) \<longrightarrow> short_list full (Some m) = take (nat m) full)
   \<and> (m = 0 \<or> int (length full) \<le> m \<longrightarrow> short_list full (Some m) = full)
   \<and> short_list full None = full
   \<and> prefix (short_list full server_limit) full"
  by (auto simp: short_list_def py_slice_to_def take_is_prefix split: option.splits)

text \<open>The theorem at a list of three and the limits 1, 3, 0 and -2.\<close>

theorem short_list_by_limit_witness:
  "(0 < (1::int) \<and> 1 < int (length [''a'', ''b'', ''c'']))
   \<and> short_list [''a'', ''b'', ''c''] (Some 1) = [''a'']
   \<and> ((3::int) = 0 \<or> int (length [''a'', ''b'', ''c'']) \<le> 3)
   \<and> short_list [''a'', ''b'', ''c''] (Some 3) = [''a'', ''b'', ''c'']
   \<and> short_list [''a'', ''b'', ''c''] (Some 0) = [''a'', ''b'', ''c'']
   \<and> prefix (short_list [''a'', ''b'', ''c''] (Some (- 2))) [''a'', ''b'', ''c'']"
  using short_list_by_limit [of 1 "[''a'', ''b'', ''c'']" "Some (- 2)"]
    short_list_by_limit [of 3 "[''a'', ''b'', ''c'']" None]
    short_list_by_limit [of 0 "[''a'', ''b'', ''c'']" None]
  by simp

text \<open>
  C4 as stated fails at a negative limit: with limit -1 the short list of two URIs is the
  first URI alone, not the full list.
\<close>

theorem short_list_negative_limit_counterexample:
  "short_list [''ldap://dc1:389'', ''ldap://dc2:389''] (Some (- 1)) = [''ldap://dc1:389'']
   \<and> short_list [''ldap://dc1:389'', ''ldap://dc2:389''] (Some (- 1))
       \<noteq> [''ldap://dc1:389'', ''ldap://dc2:389'']"
  by (simp add: short_list_def py_slice_to_def)

subsection \<open>The public functions\<close>

lemma process_isl_limit:
  "isl (process_sort_return_rtt_ordering_results run fr fns server_limit) =
   isl (process_sort_return_rtt_ordering_results run fr fns None)"
  by (simp add: process_sort_return_rtt_ordering_results_def split: sum.splits)

lemma order_ldap_no_records: "order_ldap_servers_by_rtt nw [] server_limit secure = Inr []"
  by (simp add: order_ldap_servers_by_rtt_def process_sort_return_rtt_ordering_results_def
      result_list_def rtt_uri_tuples_def short_list_def py_slice_to_def split: option.splits)

lemma order_kdcs_no_records: "order_kdcs_by_rtt nw [] server_limit = Inr []"
  by (simp add: order_kdcs_by_rtt_def process_sort_return_rtt_ordering_results_def
      result_list_def rtt_uri_tuples_def short_list_def py_slice_to_def split: option.splits)

lemma order_ldap_isl_limit:
  "isl (order_ldap_servers_by_rtt nw rs server_limit secure) =
   isl (order_ldap_servers_by_rtt nw rs None secure)"
  using process_isl_limit [of "run_probe nw" _ _ server_limit]
  by (simp add: order_ldap_servers_by_rtt_def split: prod.splits)

lemma order_kdcs_isl_limit:
  "isl (order_kdcs_by_rtt nw rs server_limit) = isl (order_kdcs_by_rtt nw rs None)"
  using process_isl_limit [of "run_probe nw" _ _ server_limit]
  by (simp add: order_kdcs_by_rtt_def split: prod.splits)

text \<open>
  C1. The public functions return one list, the short one. With the limit 1 and two
  servers that answer, the value is the list of one URI; the full list of two URIs,
  which is the value with no limit, is no part of it.
\<close>

theorem discover_returns_one_list:
  "discover_ldap_domain_controllers_in_domain example_formats two_records both_up
       ''example.com'' None (Some 1) False = Inr [''ldap://dc2:636'']
   \<and> discover_ldap_domain_controllers_in_domain example_formats two_records both_up
       ''example.com'' None None False = Inr [''ldap://dc2:636'', ''ldap://dc2:636'']
   \<and> discover_kdc_domain_controllers_in_domain example_formats two_records both_up
       ''example.com'' None (Some 1) = Inr [''dc2:636'']
   \<and> discover_kdc_domain_controllers_in_domain example_formats two_records both_up
       ''example.com'' None None = Inr [''dc2:636'', ''dc2:636'']"
  by code_simp

text \<open>
  C5, as the code has it. The public functions check neither the domain nor the limit.
  When the DNS query for the record name raises a \<open>DNSException\<close> or another \<open>Exception\<close>,
  they return the empty list for every limit; and whether a call raises does not depend
  on the limit: it raises with a limit exactly when it raises with none.
\<close>

theorem facade_no_validation:
  "(dns (srv_name (LDAP_DNS_SRV_FORMAT fmts) (LDAP_SITE_AWARE_DNS_SRV_FORMAT fmts) domain site)
       \<in> {Raises_DNSException, Raises_Exception} \<longrightarrow>
     discover_ldap_domain_controllers_in_domain fmts dns nw domain site server_limit secure = Inr [])
   \<and> (dns (srv_name (KERBEROS_DNS_SRV_FORMAT fmts) (KERBEROS_SITE_AWARE_DNS_SRV_FORMAT fmts) domain site)
       \<in> {Raises_DNSException, Raises_Exception} \<longrightarrow>
     discover_kdc_domain_controllers_in_domain fmts dns nw domain site server_limit = Inr [])
   \<and> isl (discover_ldap_domain_controllers_in_domain fmts dns nw domain site server_limit secure)
       = isl (discover_ldap_domain_controllers_in_domain fmts dns nw domain site None secure)
   \<and> isl (discover_kdc_domain_controllers_in_domain fmts dns nw domain site server_limit)
       = isl (discover_kdc_domain_controllers_in_domain fmts dns nw domain site None)"
proof (intro conjI impI)
  assume "dns (srv_name (LDAP_DNS_SRV_FORMAT fmts) (LDAP_SITE_AWARE_DNS_SRV_FORMAT fmts) domain site)
       \<in> {Raises_DNSException, Raises_Exception}"
  then show "discover_ldap_domain_controllers_in_domain fmts dns nw domain site server_limit secure = Inr []"
    by (auto simp: discover_ldap_domain_controllers_in_domain_def resolve_record_in_dns_def
        order_ldap_no_records)
next
  assume "dns (srv_name (KERBEROS_DNS_SRV_FORMAT fmts) (KERBEROS_SITE_AWARE_DNS_SRV_FORMAT fmts) domain site)
       \<in> {Raises_DNSException, Raises_Exception}"
  then show "discover_kdc_domain_controllers_in_domain fmts dns nw domain site server_limit = Inr []"
    by (auto simp: discover_kdc_domain_controllers_in_domain_def resolve_record_in_dns_def
        order_kdcs_no_records)
next
  show "isl (discover_ldap_domain_controllers_in_domain fmts dns nw domain site server_limit secure)
       = isl (discover_ldap_domain_controllers_in_domain fmts dns nw domain site None secure)"
    using order_ldap_isl_limit [of nw _ server_limit secure]
    by (simp add: discover_ldap_domain_controllers_in_domain_def split: sum.splits)
next
  show "isl (discover_kdc_domain_controllers_in_domain fmts dns nw domain site server_limit)
       = isl (discover_kdc_domain_controllers_in_domain fmts dns nw domain site None)"
    using order_kdcs_isl_limit [of nw _ server_limit]
    by (simp add: discover_kdc_domain_controllers_in_domain_def split: sum.splits)
qed

text \<open>The theorem at a domain that is no DNS name and the limit -1.\<close>

theorem facade_no_validation_witness:
  "dns_fails (srv_name (LDAP_DNS_SRV_FORMAT example_formats)
       (LDAP_SITE_AWARE_DNS_SRV_FORMAT example_formats) ''not a..domain'' None)
     \<in> {Raises_DNSException, Raises_Exception}
   \<and> discover_ldap_domain_controllers_in_domain example_formats dns_fails both_up
       ''not a..domain'' None (Some (- 1)) True = Inr []
   \<and> dns_fails (srv_name (KERBEROS_DNS_SRV_FORMAT example_formats)
       (KERBEROS_SITE_AWARE_DNS_SRV_FORMAT example_formats) ''not a..domain'' None)
     \<in> {Raises_DNSException, Raises_Exception}
   \<and> discover_kdc_domain_controllers_in_domain example_formats dns_fails both_up
       ''not a..domain'' None (Some (- 1)) = Inr []"
  using facade_no_validation [of dns_fails example_formats "''not a..domain''" None both_up
      "Some (- 1)" True]
  by (simp add: dns_fails_def)

text \<open>
  C5 as stated fails: a domain that is no DNS name, whose query raises, yields the empty
  list, and the limit -1 yields a shortened list; neither call raises.
\<close>

theorem facade_no_fault_counterexample:
  "discover_ldap_domain_controllers_in_domain example_formats dns_fails both_up
       ''not a..domain'' None (Some (- 1)) True = Inr []
   \<and> discover_kdc_domain_controllers_in_domain example_formats two_records both_up
       ''example.com'' None (Some (- 1)) = Inr [''dc2:636'']"
  by code_simp

end
